theory Spec2Isabelle
  imports Complex_Main "HOL-Library.Log_Nat"
begin

section \<open>Learning-rate schedules of \<^verbatim>\<open>lib/utils.py\<close>\<close>

text \<open>
  The embedding covers the schedule classes (\<^verbatim>\<open>LearningRateSchedule\<close> and its three
  subclasses) and the factory \<^verbatim>\<open>get_learning_rate_schedules\<close>.

  Numbers. An epoch, a Step interval and a Warmup length are Python integers
  (\<open>int\<close>). The other parameters (\<^verbatim>\<open>value\<close>, \<^verbatim>\<open>initial\<close>, \<^verbatim>\<open>factor\<close>,
  \<^verbatim>\<open>warmed_up\<close>) are Python numbers, integers or finite floats; each of them is a
  rational number, so they are values of type \<open>rat\<close>. In \<open>get_learning_rate\<close> the
  operations \<^verbatim>\<open>*\<close>, \<^verbatim>\<open>+\<close>, \<^verbatim>\<open>-\<close>, \<^verbatim>\<open>/\<close> and \<^verbatim>\<open>**\<close> are the exact ones: the
  rounding and the overflow of binary floating point are outside it.

  The Warmup method is the one place where a property depends on the rounding: at the
  epoch equal to the length the exact value of the interpolation is \<^verbatim>\<open>warmed_up\<close>
  itself. Its body is therefore written once, over the arithmetic of its numbers
  (\<open>warmup_get_learning_rate\<close>), and \<open>get_learning_rate\<close> runs it in the exact
  arithmetic; \<open>float_arith\<close> is the arithmetic of Python's floats.

  Errors. An exception is a value \<open>Inl e\<close> of the result type. A method returns its
  outcome together with the instance as the call leaves it, so that an assignment to
  \<^verbatim>\<open>self\<close> would be visible in the second component.
\<close>

subsection \<open>Exceptions\<close>

datatype error =
    KeyError string
  | ZeroDivisionError
  | Exception string

subsection \<open>Python's arithmetic where it can raise\<close>

text \<open>\<^verbatim>\<open>a // b\<close> on integers: floor division, \<^verbatim>\<open>ZeroDivisionError\<close> for \<open>b = 0\<close>.
  The \<open>div\<close> of \<open>int\<close> rounds towards minus infinity as Python's does.\<close>

definition py_floordiv :: "int \<Rightarrow> int \<Rightarrow> error + int" where
  "py_floordiv a b = (if b = 0 then Inl ZeroDivisionError else Inr (a div b))"

text \<open>\<^verbatim>\<open>x ** n\<close> for an integer exponent: a negative exponent inverts, and zero
  to a negative power raises \<^verbatim>\<open>ZeroDivisionError\<close>.\<close>

definition py_pow :: "rat \<Rightarrow> int \<Rightarrow> error + rat" where
  "py_pow x n =
     (if 0 \<le> n then Inr (x ^ nat n)
      else if x = 0 then Inl ZeroDivisionError
      else Inr (1 / x ^ nat (- n)))"

text \<open>
  An arithmetic: the conversion of an integer to a number (what Python does to the
  integer operand of a mixed operation) and the four operations on numbers.
\<close>

record 'a arith =
  num_of_int :: "int \<Rightarrow> 'a"
  num_add :: "'a \<Rightarrow> 'a \<Rightarrow> 'a"
  num_sub :: "'a \<Rightarrow> 'a \<Rightarrow> 'a"
  num_mul :: "'a \<Rightarrow> 'a \<Rightarrow> 'a"
  num_div :: "'a \<Rightarrow> 'a \<Rightarrow> 'a"

text \<open>The exact arithmetic of the rational numbers.\<close>

definition exact_arith :: "rat arith" where
  "exact_arith =
     \<lparr>num_of_int = of_int, num_add = (+), num_sub = (-), num_mul = (*), num_div = (/)\<rparr>"

text \<open>
  The arithmetic of Python's floats (IEEE binary64): the exact result, rounded to the
  nearest number with a significand of 53 bits, a tie going to the even significand.
  \<open>exponent x\<close> is the \<open>e\<close> with \<open>2 ^ e \<le> \<bar>x\<bar> < 2 ^ (e + 1)\<close>. The bounded exponent
  range (overflow, subnormal numbers), infinities and NaN are left out.
\<close>

definition pow2 :: "int \<Rightarrow> rat" where
  "pow2 e = (if 0 \<le> e then 2 ^ nat e else 1 / 2 ^ nat (- e))"

definition round_half_even :: "rat \<Rightarrow> int" where
  "round_half_even x =
     (let n = \<lfloor>x\<rfloor>; r = x - of_int n
      in if r < 1 / 2 then n else if 1 / 2 < r then n + 1 else if even n then n else n + 1)"

definition exponent :: "rat \<Rightarrow> int" where
  "exponent x =
     (if 1 \<le> \<bar>x\<bar> then bitlen \<lfloor>\<bar>x\<bar>\<rfloor> - 1
      else (let y = 1 / \<bar>x\<bar>; k = bitlen \<lfloor>y\<rfloor> - 1
            in if y = pow2 k then - k else - k - 1))"

definition fl :: "rat \<Rightarrow> rat" where
  "fl x =
     (if x = 0 then 0
      else (let u = pow2 (exponent x - 52) in of_int (round_half_even (x / u)) * u))"

definition float_arith :: "rat arith" where
  "float_arith =
     \<lparr>num_of_int = (\<lambda>n. fl (of_int n)),
      num_add = (\<lambda>a b. fl (a + b)),
      num_sub = (\<lambda>a b. fl (a - b)),
      num_mul = (\<lambda>a b. fl (a * b)),
      num_div = (\<lambda>a b. fl (a / b))\<rparr>"

text \<open>\<^verbatim>\<open>a / b\<close> for a number \<open>a\<close> and an integer \<open>b\<close>: true division,
  \<^verbatim>\<open>ZeroDivisionError\<close> for \<open>b = 0\<close>.\<close>

definition py_truediv :: "'a arith \<Rightarrow> 'a \<Rightarrow> int \<Rightarrow> error + 'a" where
  "py_truediv A a b =
     (if b = 0 then Inl ZeroDivisionError else Inr (num_div A a (num_of_int A b)))"

subsection \<open>The schedule classes\<close>

text \<open>One constructor per class, holding the attributes that \<^verbatim>\<open>__init__\<close> sets.
  The base class has no \<^verbatim>\<open>__init__\<close> of its own and no attributes.\<close>

datatype schedule =
    LearningRateSchedule
  | ConstantLearningRateSchedule (value': rat)
  | StepLearningRateSchedule (initial: rat) (interval: int) (factor: rat)
  | WarmupLearningRateSchedule (initial: rat) (warmed_up: rat) (length': int)

text \<open>
  The body of \<^verbatim>\<open>WarmupLearningRateSchedule.get_learning_rate\<close> over an arithmetic
  \<open>A\<close>: the test \<^verbatim>\<open>epoch > self.length\<close>, then
  \<^verbatim>\<open>self.initial + (self.warmed_up - self.initial) * epoch / self.length\<close>, which
  Python reads as \<open>initial + (((warmed_up - initial) * epoch) / length)\<close>.
\<close>

definition warmup_get_learning_rate ::
    "'a arith \<Rightarrow> 'a \<Rightarrow> 'a \<Rightarrow> int \<Rightarrow> int \<Rightarrow> error + 'a" where
  "warmup_get_learning_rate A i w l epoch =
     (if epoch > l then Inr w
      else
        (case py_truediv A (num_mul A (num_sub A w i) (num_of_int A epoch)) l of
           Inl e \<Rightarrow> Inl e
         | Inr d \<Rightarrow> Inr (num_add A i d)))"

text \<open>
  \<^verbatim>\<open>get_learning_rate(self, epoch)\<close>, one equation per class. The outcome is
  \<open>Inr None\<close> where the method returns Python's \<^verbatim>\<open>None\<close> (the body \<^verbatim>\<open>pass\<close> of the
  base class), \<open>Inr (Some v)\<close> where it returns the number \<open>v\<close>, and \<open>Inl e\<close> where it
  raises. No method assigns to \<^verbatim>\<open>self\<close>.
\<close>

fun get_learning_rate :: "schedule \<Rightarrow> int \<Rightarrow> (error + rat option) \<times> schedule" where
  "get_learning_rate LearningRateSchedule epoch =
     (Inr None, LearningRateSchedule)"
| "get_learning_rate (ConstantLearningRateSchedule v) epoch =
     (Inr (Some v), ConstantLearningRateSchedule v)"
| "get_learning_rate (StepLearningRateSchedule i n f) epoch =
     ((case py_floordiv epoch n of
         Inl e \<Rightarrow> Inl e
       | Inr q \<Rightarrow>
           (case py_pow f q of
              Inl e \<Rightarrow> Inl e
            | Inr p \<Rightarrow> Inr (Some (i * p)))),
      StepLearningRateSchedule i n f)"
| "get_learning_rate (WarmupLearningRateSchedule i w l) epoch =
     ((case warmup_get_learning_rate exact_arith i w l epoch of
         Inl e \<Rightarrow> Inl e
       | Inr v \<Rightarrow> Inr (Some v)),
      WarmupLearningRateSchedule i w l)"

subsection \<open>The factory\<close>

text \<open>
  A record of the specification list is a dictionary read at the keys \<^verbatim>\<open>"Type"\<close>,
  \<^verbatim>\<open>"Initial"\<close>, \<^verbatim>\<open>"Interval"\<close>, \<^verbatim>\<open>"Factor"\<close>, \<^verbatim>\<open>"Final"\<close>, \<^verbatim>\<open>"Length"\<close> and
  \<^verbatim>\<open>"Value"\<close>. Each key holds \<open>None\<close> when the dictionary lacks it and the value
  otherwise; the type tag is a string and the parameters are numbers.
\<close>

record schedule_specs =
  Type :: "string option"
  Initial :: "rat option"
  Interval :: "int option"
  Factor :: "rat option"
  Final :: "rat option"
  Length :: "int option"
  Value :: "rat option"

text \<open>\<^verbatim>\<open>d[key]\<close>: the value at the key, \<^verbatim>\<open>KeyError\<close> when it is missing.\<close>

definition getitem :: "'a option \<Rightarrow> string \<Rightarrow> error + 'a" where
  "getitem slot key = (case slot of None \<Rightarrow> Inl (KeyError key) | Some x \<Rightarrow> Inr x)"

text \<open>\<^verbatim>\<open>'no known learning rate schedule of type "{}"'.format(t)\<close>; the character
  \<open>0x22\<close> is the double quote.\<close>

definition no_known_schedule :: "string \<Rightarrow> string" where
  "no_known_schedule t =
     ''no known learning rate schedule of type '' @ [CHR 0x22] @ t @ [CHR 0x22]"

text \<open>
  The body of the \<^verbatim>\<open>for\<close> loop: the schedule that one record appends, or the
  exception it raises. The arguments of a constructor call are read from left to right,
  so the first missing key is the one reported.
\<close>

definition build_schedule :: "schedule_specs \<Rightarrow> error + schedule" where
  "build_schedule r =
     (case getitem (Type r) ''Type'' of
        Inl e \<Rightarrow> Inl e
      | Inr t \<Rightarrow>
          if t = ''Step'' then
            (case getitem (Initial r) ''Initial'' of
               Inl e \<Rightarrow> Inl e
             | Inr i \<Rightarrow>
                 (case getitem (Interval r) ''Interval'' of
                    Inl e \<Rightarrow> Inl e
                  | Inr n \<Rightarrow>
                      (case getitem (Factor r) ''Factor'' of
                         Inl e \<Rightarrow> Inl e
                       | Inr f \<Rightarrow> Inr (StepLearningRateSchedule i n f))))
          else if t = ''Warmup'' then
            (case getitem (Initial r) ''Initial'' of
               Inl e \<Rightarrow> Inl e
             | Inr i \<Rightarrow>
                 (case getitem (Final r) ''Final'' of
                    Inl e \<Rightarrow> Inl e
                  | Inr w \<Rightarrow>
                      (case getitem (Length r) ''Length'' of
                         Inl e \<Rightarrow> Inl e
                       | Inr l \<Rightarrow> Inr (WarmupLearningRateSchedule i w l))))
          else if t = ''Constant'' then
            (case getitem (Value r) ''Value'' of
               Inl e \<Rightarrow> Inl e
             | Inr v \<Rightarrow> Inr (ConstantLearningRateSchedule v))
          else Inl (Exception (no_known_schedule t)))"

text \<open>The loop over the records, with the list \<^verbatim>\<open>schedules\<close> that it appends to.\<close>

fun schedules_loop :: "schedule_specs list \<Rightarrow> schedule list \<Rightarrow> error + schedule list" where
  "schedules_loop [] schedules = Inr schedules"
| "schedules_loop (r # rs) schedules =
     (case build_schedule r of
        Inl e \<Rightarrow> Inl e
      | Inr s \<Rightarrow> schedules_loop rs (schedules @ [s]))"

text \<open>\<^verbatim>\<open>specs\<close> is a dictionary; only its key \<^verbatim>\<open>"LearningRateSchedule"\<close> is read.\<close>

definition get_learning_rate_schedules ::
    "(string \<rightharpoonup> schedule_specs list) \<Rightarrow> error + schedule list" where
  "get_learning_rate_schedules specs =
     (case specs ''LearningRateSchedule'' of
        None \<Rightarrow> Inl (KeyError ''LearningRateSchedule'')
      | Some rs \<Rightarrow> schedules_loop rs [])"

text \<open>The empty dictionary \<^verbatim>\<open>{}\<close>, from which example records are written by
  record update.\<close>

definition no_keys :: schedule_specs where
  "no_keys =
     \<lparr>Type = None, Initial = None, Interval = None, Factor = None, Final = None,
      Length = None, Value = None\<rparr>"

subsection \<open>Vocabulary of the specification\<close>

text \<open>The three type tags that the specification recognises.\<close>

definition recognized :: "string \<Rightarrow> bool" where
  "recognized t = (t = ''Step'' \<or> t = ''Warmup'' \<or> t = ''Constant'')"

text \<open>A valid record: a recognised type tag together with the parameters of that
  variant.\<close>

definition valid_record :: "schedule_specs \<Rightarrow> bool" where
  "valid_record r =
     (case Type r of
        None \<Rightarrow> False
      | Some t \<Rightarrow>
          (t = ''Step'' \<and> Initial r \<noteq> None \<and> Interval r \<noteq> None \<and> Factor r \<noteq> None) \<or>
          (t = ''Warmup'' \<and> Initial r \<noteq> None \<and> Final r \<noteq> None \<and> Length r \<noteq> None) \<or>
          (t = ''Constant'' \<and> Value r \<noteq> None))"

text \<open>The schedule \<open>s\<close> is the variant that the record \<open>r\<close> names, with the
  parameters of \<open>r\<close> as they are.\<close>

definition constructed_from :: "schedule_specs \<Rightarrow> schedule \<Rightarrow> bool" where
  "constructed_from r s =
     (case s of
        LearningRateSchedule \<Rightarrow> False
      | ConstantLearningRateSchedule v \<Rightarrow>
          Type r = Some ''Constant'' \<and> Value r = Some v
      | StepLearningRateSchedule i n f \<Rightarrow>
          Type r = Some ''Step'' \<and> Initial r = Some i \<and> Interval r = Some n \<and>
          Factor r = Some f
      | WarmupLearningRateSchedule i w l \<Rightarrow>
          Type r = Some ''Warmup'' \<and> Initial r = Some i \<and> Final r = Some w \<and>
          Length r = Some l)"

section \<open>Properties\<close>

subsection \<open>Constant schedules\<close>

text \<open>
  Claim C5. A Constant schedule built with \<^verbatim>\<open>value\<close> returns that value at every
  integer epoch, zero and negative epochs included.
\<close>

theorem constant_returns_value:
  "fst (get_learning_rate (ConstantLearningRateSchedule v) e) = Inr (Some v)"
  by simp

subsection \<open>Step schedules\<close>

text \<open>For a positive interval, every epoch of the \<open>k\<close>-th stair has quotient \<open>k\<close>.\<close>

lemma floordiv_in_step:
  fixes n e :: int
  assumes "0 < n" "int k * n \<le> e" "e < (int k + 1) * n"
  shows "e div n = int k"
proof (rule int_div_pos_eq)
  show "e = n * int k + (e - int k * n)" by (simp add: algebra_simps)
  show "0 \<le> e - int k * n" using assms(2) by simp
  show "e - int k * n < n" using assms(3) by (simp add: algebra_simps)
qed

lemma step_at:
  assumes "0 < n" "int k * n \<le> e" "e < (int k + 1) * n"
  shows "fst (get_learning_rate (StepLearningRateSchedule i n f) e) = Inr (Some (i * f ^ k))"
  using assms floordiv_in_step [OF assms] by (simp add: py_floordiv_def py_pow_def)

text \<open>
  Claim C1. A Step schedule with \<open>interval > 0\<close> returns \<open>initial * factor ** k\<close> at
  epoch \<open>k * interval\<close> for every natural number \<open>k\<close>, returns the same value at every
  epoch of the half-open range from \<open>k * interval\<close> to \<open>(k + 1) * interval\<close>, and
  returns \<open>initial\<close> at epoch \<open>0\<close>.
\<close>

theorem step_staircase:
  assumes "0 < n"
  shows "fst (get_learning_rate (StepLearningRateSchedule i n f) (int k * n))
           = Inr (Some (i * f ^ k))
    \<and> (\<forall>e. int k * n \<le> e \<and> e < (int k + 1) * n \<longrightarrow>
          fst (get_learning_rate (StepLearningRateSchedule i n f) e) = Inr (Some (i * f ^ k)))
    \<and> fst (get_learning_rate (StepLearningRateSchedule i n f) 0) = Inr (Some i)"
proof (intro conjI allI impI)
  show "fst (get_learning_rate (StepLearningRateSchedule i n f) (int k * n))
          = Inr (Some (i * f ^ k))"
    using assms by (intro step_at) (simp_all add: algebra_simps)
next
  fix e assume "int k * n \<le> e \<and> e < (int k + 1) * n"
  then show "fst (get_learning_rate (StepLearningRateSchedule i n f) e)
               = Inr (Some (i * f ^ k))"
    using assms by (intro step_at) simp_all
next
  show "fst (get_learning_rate (StepLearningRateSchedule i n f) 0) = Inr (Some i)"
    using assms by (simp add: py_floordiv_def py_pow_def)
qed

theorem step_staircase_witness:
  "(0::int) < 100 \<and>
   fst (get_learning_rate (StepLearningRateSchedule (1/100) 100 (1/2)) 200)
     = Inr (Some (1/400)) \<and>
   fst (get_learning_rate (StepLearningRateSchedule (1/100) 100 (1/2)) 299)
     = Inr (Some (1/400)) \<and>
   fst (get_learning_rate (StepLearningRateSchedule (1/100) 100 (1/2)) 0)
     = Inr (Some (1/100))"
proof -
  have pos: "(0::int) < 100" by simp
  note st = step_staircase [OF pos, of "1/100" "1/2" 2]
  from st
  have a: "fst (get_learning_rate (StepLearningRateSchedule (1/100) 100 (1/2)) 200)
             = Inr (Some (1/400))"
    by (simp add: power2_eq_square)
  from st
  have "int 2 * 100 \<le> 299 \<and> 299 < (int 2 + 1) * 100 \<longrightarrow>
     fst (get_learning_rate (StepLearningRateSchedule (1/100) 100 (1/2)) 299)
       = Inr (Some (1/100 * (1/2) ^ 2))"
    by blast
  then
  have b: "fst (get_learning_rate (StepLearningRateSchedule (1/100) 100 (1/2)) 299)
             = Inr (Some (1/400))"
    by (simp add: power2_eq_square)
  from st
  have c: "fst (get_learning_rate (StepLearningRateSchedule (1/100) 100 (1/2)) 0)
             = Inr (Some (1/100))"
    by blast
  from pos a b c show ?thesis by blast
qed

subsection \<open>Warmup schedules\<close>

text \<open>What the Warmup equation of \<open>get_learning_rate\<close> computes, in the exact
  arithmetic.\<close>

lemma get_learning_rate_Warmup:
  "fst (get_learning_rate (WarmupLearningRateSchedule i w l) e)
     = (if e > l then Inr (Some w)
        else if l = 0 then Inl ZeroDivisionError
        else Inr (Some (i + (w - i) * of_int e / of_int l)))"
  by (simp add: warmup_get_learning_rate_def py_truediv_def exact_arith_def)

text \<open>The float \<^verbatim>\<open>0.1\<close> is the rational number used in the instance of claim C2.\<close>

lemma float_tenth: "fl (1 / 10) = 3602879701896397 / 36028797018963968"
  by code_simp

text \<open>
  Claim C2. The Warmup test is the strict \<open>epoch > length\<close>, in every arithmetic \<open>A\<close>:
  every epoch above \<open>length\<close>, \<open>length + 1\<close> among them, returns \<open>warmed_up\<close> itself,
  and the epoch equal to \<open>length\<close> returns what the interpolation
  \<open>initial + (warmed_up - initial) * epoch / length\<close> evaluates to in \<open>A\<close>, not
  \<open>warmed_up\<close>; for \<open>length = 0\<close> the division of the interpolation raises. The last
  four conjuncts are the same facts for \<open>get_learning_rate\<close>, in the exact arithmetic.
  In the arithmetic of floats the two branches differ in value: the instance below is
  \<^verbatim>\<open>WarmupLearningRateSchedule(0.0, 0.1, 3)\<close>, which returns
  \<^verbatim>\<open>0.10000000000000002\<close> at epoch 3 and \<^verbatim>\<open>0.1\<close> at epoch 4.
\<close>

theorem warmup_strict_boundary:
  "(l < e \<longrightarrow> warmup_get_learning_rate A i w l e = Inr w)
   \<and> warmup_get_learning_rate A i w l (l + 1) = Inr w
   \<and> (l \<noteq> 0 \<longrightarrow> warmup_get_learning_rate A i w l l
          = Inr (num_add A i
                   (num_div A (num_mul A (num_sub A w i) (num_of_int A l))
                      (num_of_int A l))))
   \<and> (l = 0 \<longrightarrow> warmup_get_learning_rate A i w l l = Inl ZeroDivisionError)
   \<and> (l < e \<longrightarrow>
        fst (get_learning_rate (WarmupLearningRateSchedule i' w' l) e) = Inr (Some w'))
   \<and> fst (get_learning_rate (WarmupLearningRateSchedule i' w' l) (l + 1)) = Inr (Some w')
   \<and> (l \<noteq> 0 \<longrightarrow> fst (get_learning_rate (WarmupLearningRateSchedule i' w' l) l)
          = Inr (Some (i' + (w' - i') * of_int l / of_int l)))
   \<and> (l = 0 \<longrightarrow> fst (get_learning_rate (WarmupLearningRateSchedule i' w' l) l)
          = Inl ZeroDivisionError)"
  by (simp add: warmup_get_learning_rate_def py_truediv_def exact_arith_def)

theorem warmup_strict_boundary_witness:
  "warmup_get_learning_rate float_arith 0 (3602879701896397 / 36028797018963968) 3 4
     = Inr (3602879701896397 / 36028797018963968)
   \<and> warmup_get_learning_rate float_arith 0 (3602879701896397 / 36028797018963968) 3 3
     = Inr (7205759403792795 / 72057594037927936)
   \<and> warmup_get_learning_rate float_arith 0 (3602879701896397 / 36028797018963968) 0 0
     = Inl ZeroDivisionError
   \<and> fst (get_learning_rate (WarmupLearningRateSchedule 0 1 4) 5) = Inr (Some 1)
   \<and> fst (get_learning_rate (WarmupLearningRateSchedule 0 1 4) 4)
       = Inr (Some (0 + (1 - 0) * 4 / 4))
   \<and> fst (get_learning_rate (WarmupLearningRateSchedule 0 1 0) 0) = Inl ZeroDivisionError"
proof -
  let ?w = "3602879701896397 / 36028797018963968 :: rat"
  have rounded:
    "num_add float_arith 0
       (num_div float_arith (num_mul float_arith (num_sub float_arith ?w 0)
          (num_of_int float_arith 3)) (num_of_int float_arith 3))
     = 7205759403792795 / 72057594037927936"
    by code_simp
  note at3 = warmup_strict_boundary
    [where l = 3 and e = 4 and A = float_arith and i = 0 and w = ?w and i' = 0 and w' = 1]
  note at0 = warmup_strict_boundary
    [where l = 0 and e = 0 and A = float_arith and i = 0 and w = ?w and i' = 0 and w' = 1]
  note at4 = warmup_strict_boundary
    [where l = 4 and e = 5 and A = float_arith and i = 0 and w = ?w and i' = 0 and w' = 1]
  from at3 have a: "warmup_get_learning_rate float_arith 0 ?w 3 4 = Inr ?w"
    by simp
  from at3 have "warmup_get_learning_rate float_arith 0 ?w 3 3
      = Inr (num_add float_arith 0
           (num_div float_arith (num_mul float_arith (num_sub float_arith ?w 0)
              (num_of_int float_arith 3)) (num_of_int float_arith 3)))"
    by simp
  with rounded
  have b: "warmup_get_learning_rate float_arith 0 ?w 3 3
      = Inr (7205759403792795 / 72057594037927936)"
    by simp
  from at0 have c: "warmup_get_learning_rate float_arith 0 ?w 0 0 = Inl ZeroDivisionError"
    by simp
  from at4 have d: "fst (get_learning_rate (WarmupLearningRateSchedule 0 1 4) 5) = Inr (Some 1)"
    by simp
  from at4 have e: "fst (get_learning_rate (WarmupLearningRateSchedule 0 1 4) 4)
       = Inr (Some (0 + (1 - 0) * 4 / 4))"
    by simp
  from at0 have f: "fst (get_learning_rate (WarmupLearningRateSchedule 0 1 0) 0)
       = Inl ZeroDivisionError"
    by simp
  from a b c d e f show ?thesis by (intro conjI)
qed

lemma warmup_value:
  assumes "0 < l" "e \<le> l"
  shows "fst (get_learning_rate (WarmupLearningRateSchedule i w l) e)
     = Inr (Some (i + (w - i) * of_int e / of_int l))"
  using assms by (simp add: warmup_get_learning_rate_def py_truediv_def exact_arith_def)

text \<open>
  Claim C6. A Warmup schedule with \<open>length > 0\<close> returns \<open>initial\<close> at epoch \<open>0\<close>, and
  over the epochs \<open>0, 1, ..., length\<close> its values move in the direction from \<open>initial\<close>
  to \<open>warmed_up\<close>: they do not decrease when \<open>warmed_up > initial\<close> and do not increase
  when \<open>warmed_up < initial\<close>.
\<close>

theorem warmup_monotone:
  assumes "0 < l"
  shows "fst (get_learning_rate (WarmupLearningRateSchedule i w l) 0) = Inr (Some i)
    \<and> (\<forall>e1 e2. 0 \<le> e1 \<and> e1 \<le> e2 \<and> e2 \<le> l \<longrightarrow>
          (\<exists>v1 v2.
             fst (get_learning_rate (WarmupLearningRateSchedule i w l) e1) = Inr (Some v1)
             \<and> fst (get_learning_rate (WarmupLearningRateSchedule i w l) e2) = Inr (Some v2)
             \<and> (i < w \<longrightarrow> v1 \<le> v2) \<and> (w < i \<longrightarrow> v2 \<le> v1)))"
proof (intro conjI allI impI)
  show "fst (get_learning_rate (WarmupLearningRateSchedule i w l) 0) = Inr (Some i)"
    using assms warmup_value [of l 0 i w] by simp
next
  fix e1 e2 :: int
  assume b: "0 \<le> e1 \<and> e1 \<le> e2 \<and> e2 \<le> l"
  let ?v = "\<lambda>e::int. i + (w - i) * of_int e / of_int l"
  have le: "(of_int e1 :: rat) \<le> of_int e2" using b by simp
  have lpos: "(0::rat) < of_int l" using assms by simp
  have up: "?v e1 \<le> ?v e2" if "i < w"
  proof -
    have "(w - i) * of_int e1 \<le> (w - i) * of_int e2"
      using that le by (intro mult_left_mono) simp_all
    then show ?thesis using lpos by (simp add: divide_right_mono)
  qed
  have down: "?v e2 \<le> ?v e1" if "w < i"
  proof -
    have "(w - i) * of_int e2 \<le> (w - i) * of_int e1"
      using that le by (intro mult_left_mono_neg) simp_all
    then show ?thesis using lpos by (simp add: divide_right_mono)
  qed
  have v1: "fst (get_learning_rate (WarmupLearningRateSchedule i w l) e1)
              = Inr (Some (?v e1))"
    using assms b by (intro warmup_value) simp_all
  have v2: "fst (get_learning_rate (WarmupLearningRateSchedule i w l) e2)
              = Inr (Some (?v e2))"
    using assms b by (intro warmup_value) simp_all
  from v1 v2 up down
  show "\<exists>v1 v2.
          fst (get_learning_rate (WarmupLearningRateSchedule i w l) e1) = Inr (Some v1)
          \<and> fst (get_learning_rate (WarmupLearningRateSchedule i w l) e2) = Inr (Some v2)
          \<and> (i < w \<longrightarrow> v1 \<le> v2) \<and> (w < i \<longrightarrow> v2 \<le> v1)"
    by blast
qed

theorem warmup_monotone_witness:
  "(0::int) < 4
   \<and> fst (get_learning_rate (WarmupLearningRateSchedule 0 1 4) 0) = Inr (Some 0)
   \<and> (\<exists>v1 v2. fst (get_learning_rate (WarmupLearningRateSchedule 0 1 4) 1) = Inr (Some v1)
         \<and> fst (get_learning_rate (WarmupLearningRateSchedule 0 1 4) 3) = Inr (Some v2)
         \<and> v1 \<le> v2)"
proof -
  have pos: "(0::int) < 4" by simp
  note m = warmup_monotone [OF pos, of 0 1]
  from m
  have z: "fst (get_learning_rate (WarmupLearningRateSchedule 0 1 4) 0) = Inr (Some 0)"
    by blast
  have bounds: "(0::int) \<le> 1 \<and> (1::int) \<le> 3 \<and> (3::int) \<le> 4" by simp
  have dir: "(0::rat) < 1" by simp
  from m bounds dir
  have "\<exists>v1 v2. fst (get_learning_rate (WarmupLearningRateSchedule 0 1 4) 1) = Inr (Some v1)
         \<and> fst (get_learning_rate (WarmupLearningRateSchedule 0 1 4) 3) = Inr (Some v2)
         \<and> v1 \<le> v2"
    by blast
  with pos z show ?thesis by blast
qed

text \<open>
  Claim C7, as the code has it. A Warmup schedule with \<open>length = 0\<close> raises
  \<^verbatim>\<open>ZeroDivisionError\<close>, passed on as it is, at every epoch \<open>\<le> 0\<close>; at every epoch
  \<open>> 0\<close> the test \<open>epoch > length\<close> holds, no division takes place and the schedule
  returns \<open>warmed_up\<close>.
\<close>

theorem warmup_zero_length:
  "(e \<le> 0 \<longrightarrow>
      fst (get_learning_rate (WarmupLearningRateSchedule i w 0) e) = Inl ZeroDivisionError)
   \<and> (0 < e \<longrightarrow>
      fst (get_learning_rate (WarmupLearningRateSchedule i w 0) e) = Inr (Some w))"
  by (simp add: warmup_get_learning_rate_def py_truediv_def exact_arith_def)

theorem warmup_zero_length_witness:
  "fst (get_learning_rate (WarmupLearningRateSchedule 0 1 0) 0) = Inl ZeroDivisionError
   \<and> fst (get_learning_rate (WarmupLearningRateSchedule 0 1 0) 3) = Inr (Some 1)"
  using warmup_zero_length [of 0 0 1] warmup_zero_length [of 3 0 1]
  by (simp add: warmup_get_learning_rate_def py_truediv_def exact_arith_def)

text \<open>Claim C7 as stated, that every evaluation with \<open>length = 0\<close> fails, is
  false at epoch \<open>1\<close>.\<close>

theorem warmup_zero_length_counterexample:
  "fst (get_learning_rate (WarmupLearningRateSchedule 0 1 0) 1) = Inr (Some 1)
   \<and> fst (get_learning_rate (WarmupLearningRateSchedule 0 1 0) 1) \<noteq> Inl ZeroDivisionError"
  by (simp add: warmup_get_learning_rate_def py_truediv_def exact_arith_def)

subsection \<open>All schedule classes\<close>

text \<open>
  Claim C9. A call of \<^verbatim>\<open>get_learning_rate\<close> leaves the instance as it was, whatever
  the class and whether the call returns or raises: the attributes \<^verbatim>\<open>value\<close>;
  \<^verbatim>\<open>initial\<close>, \<^verbatim>\<open>interval\<close>, \<^verbatim>\<open>factor\<close>; \<^verbatim>\<open>initial\<close>, \<^verbatim>\<open>warmed_up\<close>,
  \<^verbatim>\<open>length\<close> keep their values.
\<close>

theorem get_learning_rate_frame:
  "snd (get_learning_rate s e) = s
   \<and> value' (snd (get_learning_rate (ConstantLearningRateSchedule v) e)) = v
   \<and> initial (snd (get_learning_rate (StepLearningRateSchedule i n f) e)) = i
   \<and> interval (snd (get_learning_rate (StepLearningRateSchedule i n f) e)) = n
   \<and> factor (snd (get_learning_rate (StepLearningRateSchedule i n f) e)) = f
   \<and> initial (snd (get_learning_rate (WarmupLearningRateSchedule i w l) e)) = i
   \<and> warmed_up (snd (get_learning_rate (WarmupLearningRateSchedule i w l) e)) = w
   \<and> length' (snd (get_learning_rate (WarmupLearningRateSchedule i w l) e)) = l"
  by (cases s) simp_all

text \<open>
  Claim C10. On an instance of the base class \<^verbatim>\<open>LearningRateSchedule\<close> the method
  returns \<^verbatim>\<open>None\<close> at every epoch, neither a number nor an exception; an instance of
  one of the three subclasses never returns \<^verbatim>\<open>None\<close>.
\<close>

theorem base_class_returns_None:
  "fst (get_learning_rate LearningRateSchedule e) = Inr None
   \<and> (fst (get_learning_rate s e) = Inr None \<longleftrightarrow> s = LearningRateSchedule)"
  by (cases s)
    (auto simp: py_floordiv_def py_pow_def py_truediv_def warmup_get_learning_rate_def
          exact_arith_def split: sum.splits)

theorem base_class_returns_None_witness:
  "fst (get_learning_rate LearningRateSchedule 7) = Inr None
   \<and> fst (get_learning_rate (ConstantLearningRateSchedule 1) 7) \<noteq> Inr None"
  using base_class_returns_None [of 7 "ConstantLearningRateSchedule 1"]
  by simp

subsection \<open>The factory\<close>

text \<open>What one record builds.\<close>

lemma build_schedule_Step:
  assumes "Type r = Some ''Step''" "Initial r = Some i" "Interval r = Some n" "Factor r = Some f"
  shows "build_schedule r = Inr (StepLearningRateSchedule i n f)"
  using assms by (simp add: build_schedule_def getitem_def)

lemma build_schedule_Warmup:
  assumes "Type r = Some ''Warmup''" "Initial r = Some i" "Final r = Some w" "Length r = Some l"
  shows "build_schedule r = Inr (WarmupLearningRateSchedule i w l)"
  using assms by (simp add: build_schedule_def getitem_def)

lemma build_schedule_Constant:
  assumes "Type r = Some ''Constant''" "Value r = Some v"
  shows "build_schedule r = Inr (ConstantLearningRateSchedule v)"
  using assms by (simp add: build_schedule_def getitem_def)

lemma valid_record_cases:
  assumes "valid_record r"
  shows "(Type r = Some ''Step'' \<and> Initial r \<noteq> None \<and> Interval r \<noteq> None \<and> Factor r \<noteq> None)
       \<or> (Type r = Some ''Warmup'' \<and> Initial r \<noteq> None \<and> Final r \<noteq> None \<and> Length r \<noteq> None)
       \<or> (Type r = Some ''Constant'' \<and> Value r \<noteq> None)"
proof (cases "Type r")
  case None
  with assms show ?thesis by (simp add: valid_record_def)
next
  case (Some t)
  with assms show ?thesis by (simp add: valid_record_def)
qed

lemma build_schedule_valid:
  assumes "valid_record r"
  shows "\<exists>s. build_schedule r = Inr s"
proof -
  from valid_record_cases [OF assms] consider
      (step) "Type r = Some ''Step''" "Initial r \<noteq> None" "Interval r \<noteq> None" "Factor r \<noteq> None"
    | (warmup) "Type r = Some ''Warmup''" "Initial r \<noteq> None" "Final r \<noteq> None" "Length r \<noteq> None"
    | (const) "Type r = Some ''Constant''" "Value r \<noteq> None"
    by blast
  then show ?thesis
  proof cases
    case step
    then obtain i n f where "Initial r = Some i" "Interval r = Some n" "Factor r = Some f"
      by blast
    from build_schedule_Step [OF step(1) this] show ?thesis by (rule exI)
  next
    case warmup
    then obtain i w l where "Initial r = Some i" "Final r = Some w" "Length r = Some l"
      by blast
    from build_schedule_Warmup [OF warmup(1) this] show ?thesis by (rule exI)
  next
    case const
    then obtain v where "Value r = Some v"
      by blast
    from build_schedule_Constant [OF const(1) this] show ?thesis by (rule exI)
  qed
qed

lemma build_schedule_sound:
  assumes "build_schedule r = Inr s"
  shows "constructed_from r s"
  using assms
  by (auto simp: build_schedule_def getitem_def constructed_from_def
           split: option.splits if_splits)

lemma build_schedule_recognized:
  assumes "build_schedule r = Inr s" "Type r = Some t"
  shows "recognized t"
  using assms
  by (auto simp: build_schedule_def getitem_def recognized_def split: option.splits if_splits)

lemma build_schedule_unrecognized:
  assumes "Type r = Some t" "\<not> recognized t"
  shows "build_schedule r = Inl (Exception (no_known_schedule t))"
  using assms by (simp add: build_schedule_def getitem_def recognized_def)

text \<open>What the loop builds: the schedules of the records, appended in order; the
  first record that raises ends the loop with its exception.\<close>

lemma schedules_loop_all2:
  assumes "list_all2 (\<lambda>r s. build_schedule r = Inr s) rs ss"
  shows "schedules_loop rs acc = Inr (acc @ ss)"
  using assms by (induction rs ss arbitrary: acc rule: list_all2_induct) simp_all

lemma schedules_loop_Inr:
  assumes "schedules_loop rs acc = Inr out"
  shows "\<exists>ss. out = acc @ ss \<and> list_all2 (\<lambda>r s. build_schedule r = Inr s) rs ss"
  using assms
proof (induction rs arbitrary: acc)
  case Nil
  then show ?case by simp
next
  case (Cons r rs)
  from Cons.prems obtain s where s: "build_schedule r = Inr s"
    and rest: "schedules_loop rs (acc @ [s]) = Inr out"
    by (auto split: sum.splits)
  from Cons.IH [OF rest] obtain ss where "out = (acc @ [s]) @ ss"
    and "list_all2 (\<lambda>r s. build_schedule r = Inr s) rs ss" by blast
  with s have "out = acc @ (s # ss) \<and> list_all2 (\<lambda>r s. build_schedule r = Inr s) (r # rs) (s # ss)"
    by simp
  then show ?case by blast
qed

lemma schedules_loop_raises:
  assumes "list_all2 (\<lambda>r s. build_schedule r = Inr s) pre ss" "build_schedule r = Inl e"
  shows "schedules_loop (pre @ r # post) acc = Inl e"
  using assms by (induction pre ss arbitrary: acc rule: list_all2_induct) simp_all

lemma valid_records_all2:
  assumes "\<forall>r\<in>set rs. valid_record r"
  shows "\<exists>ss. list_all2 (\<lambda>r s. build_schedule r = Inr s) rs ss"
  using assms
proof (induction rs)
  case Nil
  then show ?case by simp
next
  case (Cons r rs)
  then obtain ss where "list_all2 (\<lambda>r s. build_schedule r = Inr s) rs ss" by auto
  moreover from Cons.prems obtain s where "build_schedule r = Inr s"
    using build_schedule_valid [of r] by auto
  ultimately have "list_all2 (\<lambda>r s. build_schedule r = Inr s) (r # rs) (s # ss)" by simp
  then show ?case by blast
qed


lemma schedules_loop_Inr_builds:
  assumes "schedules_loop rs acc = Inr out" "r \<in> set rs"
  shows "\<exists>s. build_schedule r = Inr s"
  using assms
proof (induction rs arbitrary: acc)
  case Nil
  then show ?case by simp
next
  case (Cons x xs)
  from Cons.prems(1) obtain s where s: "build_schedule x = Inr s"
    and rest: "schedules_loop xs (acc @ [s]) = Inr out"
    by (auto split: sum.splits)
  show ?case
  proof (cases "r = x")
    case True
    with s show ?thesis by blast
  next
    case False
    with Cons.prems(2) have "r \<in> set xs" by simp
    from Cons.IH [OF rest this] show ?thesis .
  qed
qed

text \<open>
  Claim C3, as the code has it. A specification list with a record whose type tag is
  none of \<^verbatim>\<open>"Step"\<close>, \<^verbatim>\<open>"Warmup"\<close>, \<^verbatim>\<open>"Constant"\<close> makes the factory raise: no
  list of schedules is returned, so the record is neither skipped nor replaced by a
  default, and nothing built so far is handed out. When every record before it is
  valid, the exception is the one raised for this record, whatever follows it in the
  list, and its message contains the type tag. (A record before it that is not valid
  raises first, with its own exception.)
\<close>

theorem unrecognized_type_raises:
  assumes "specs ''LearningRateSchedule'' = Some (pre @ r # post)"
    and "Type r = Some t" and "\<not> recognized t"
  shows "(\<exists>e. get_learning_rate_schedules specs = Inl e)
    \<and> ((\<forall>p\<in>set pre. valid_record p) \<longrightarrow>
         get_learning_rate_schedules specs = Inl (Exception (no_known_schedule t)))
    \<and> (\<exists>a b. no_known_schedule t = a @ t @ b)"
proof (intro conjI impI)
  show "\<exists>e. get_learning_rate_schedules specs = Inl e"
  proof (cases "get_learning_rate_schedules specs")
    case (Inl e)
    then show ?thesis by blast
  next
    case (Inr out)
    with assms(1) have "schedules_loop (pre @ r # post) [] = Inr out"
      by (simp add: get_learning_rate_schedules_def)
    moreover have "r \<in> set (pre @ r # post)" by simp
    ultimately obtain s where "build_schedule r = Inr s"
      using schedules_loop_Inr_builds by blast
    from build_schedule_recognized [OF this assms(2)] assms(3) show ?thesis by simp
  qed
next
  assume "\<forall>p\<in>set pre. valid_record p"
  from valid_records_all2 [OF this] obtain ss
    where "list_all2 (\<lambda>r s. build_schedule r = Inr s) pre ss" by blast
  from schedules_loop_raises [OF this build_schedule_unrecognized [OF assms(2,3)]] assms(1)
  show "get_learning_rate_schedules specs = Inl (Exception (no_known_schedule t))"
    by (simp add: get_learning_rate_schedules_def)
next
  have "no_known_schedule t
          = (''no known learning rate schedule of type '' @ [CHR 0x22]) @ t @ [CHR 0x22]"
    by (simp add: no_known_schedule_def)
  then show "\<exists>a b. no_known_schedule t = a @ t @ b"
    by (intro exI)
qed

theorem unrecognized_type_raises_witness:
  "get_learning_rate_schedules [''LearningRateSchedule'' \<mapsto>
         [no_keys\<lparr>Type := Some ''Constant'', Value := Some (1/1000)\<rparr>,
          no_keys\<lparr>Type := Some ''Bogus''\<rparr>,
          no_keys\<lparr>Type := Some ''Step''\<rparr>]]
   = Inl (Exception (no_known_schedule ''Bogus''))"
proof -
  let ?c = "no_keys\<lparr>Type := Some ''Constant'', Value := Some (1/1000)\<rparr>"
  let ?b = "no_keys\<lparr>Type := Some ''Bogus''\<rparr>"
  let ?s = "no_keys\<lparr>Type := Some ''Step''\<rparr>"
  let ?specs = "[''LearningRateSchedule'' \<mapsto> [?c, ?b, ?s]]"
  have l: "?specs ''LearningRateSchedule'' = Some ([?c] @ ?b # [?s])" by simp
  have t: "Type ?b = Some ''Bogus''" by (simp add: no_keys_def)
  have u: "\<not> recognized ''Bogus''" by (simp add: recognized_def)
  have v: "\<forall>p\<in>set [?c]. valid_record p" by (simp add: valid_record_def no_keys_def)
  note th = unrecognized_type_raises [of ?specs "[?c]" ?b "[?s]" "''Bogus''", OF l t u]
  from th [THEN conjunct2, THEN conjunct1, THEN mp, OF v] show ?thesis .
qed

text \<open>Claim C3 as stated, for any list with an unrecognised type tag, is false when a
  record before the tag lacks a key: the factory raises the \<^verbatim>\<open>KeyError\<close> of that
  record, whose message does not name the tag.\<close>

theorem unrecognized_type_raises_counterexample:
  "get_learning_rate_schedules [''LearningRateSchedule'' \<mapsto>
     [no_keys\<lparr>Type := Some ''Step''\<rparr>, no_keys\<lparr>Type := Some ''Bogus''\<rparr>]]
     = Inl (KeyError ''Initial'')
   \<and> get_learning_rate_schedules [''LearningRateSchedule'' \<mapsto>
     [no_keys\<lparr>Type := Some ''Step''\<rparr>, no_keys\<lparr>Type := Some ''Bogus''\<rparr>]]
     \<noteq> Inl (Exception (no_known_schedule ''Bogus''))"
  by (simp add: get_learning_rate_schedules_def build_schedule_def getitem_def no_keys_def)

text \<open>
  Claim C4. From a list of valid records the factory returns one schedule for each
  record, in the order of the list; the schedule at position \<open>k\<close> is the variant that
  the type tag of record \<open>k\<close> names and holds the parameters of record \<open>k\<close> unchanged.
  No parameter value is refused: the statement holds for all numbers, and the instance
  below has a negative interval and a zero length.
\<close>

theorem valid_specs_build_in_order:
  assumes "specs ''LearningRateSchedule'' = Some rs"
    and "\<forall>r\<in>set rs. valid_record r"
  shows "\<exists>ss. get_learning_rate_schedules specs = Inr ss \<and> length ss = length rs
           \<and> (\<forall>k<length rs. constructed_from (rs ! k) (ss ! k))"
proof -
  from valid_records_all2 [OF assms(2)] obtain ss
    where all2: "list_all2 (\<lambda>r s. build_schedule r = Inr s) rs ss" by blast
  from schedules_loop_all2 [OF all2, of "[]"] assms(1)
  have built: "get_learning_rate_schedules specs = Inr ss"
    by (simp add: get_learning_rate_schedules_def)
  from all2 have len: "length ss = length rs"
    by (simp add: list_all2_lengthD)
  have "constructed_from (rs ! k) (ss ! k)" if "k < length rs" for k
    using list_all2_nthD [OF all2 that] by (rule build_schedule_sound)
  with built len show ?thesis by blast
qed

theorem valid_specs_build_in_order_witness:
  "\<exists>ss. get_learning_rate_schedules [''LearningRateSchedule'' \<mapsto>
         [no_keys\<lparr>Type := Some ''Constant'', Value := Some (1/1000)\<rparr>,
          no_keys\<lparr>Type := Some ''Step'', Initial := Some (1/100), Interval := Some (- 100), Factor := Some (1/2)\<rparr>,
          no_keys\<lparr>Type := Some ''Warmup'', Initial := Some 0, Final := Some 1, Length := Some 0\<rparr>]] = Inr ss
     \<and> length ss = 3
     \<and> ss ! 0 = ConstantLearningRateSchedule (1/1000)
     \<and> ss ! 1 = StepLearningRateSchedule (1/100) (- 100) (1/2)
     \<and> ss ! 2 = WarmupLearningRateSchedule 0 1 0"
proof -
  let ?c = "no_keys\<lparr>Type := Some ''Constant'', Value := Some (1/1000)\<rparr>"
  let ?s = "no_keys\<lparr>Type := Some ''Step'', Initial := Some (1/100), Interval := Some (- 100), Factor := Some (1/2)\<rparr>"
  let ?w = "no_keys\<lparr>Type := Some ''Warmup'', Initial := Some 0, Final := Some 1, Length := Some 0\<rparr>"
  let ?specs = "[''LearningRateSchedule'' \<mapsto> [?c, ?s, ?w]]"
  have l: "?specs ''LearningRateSchedule'' = Some [?c, ?s, ?w]" by simp
  have v: "\<forall>r\<in>set [?c, ?s, ?w]. valid_record r" by (simp add: valid_record_def no_keys_def)
  from valid_specs_build_in_order [of ?specs "[?c, ?s, ?w]", OF l v] obtain ss
    where b: "get_learning_rate_schedules ?specs = Inr ss" and n: "length ss = length [?c, ?s, ?w]"
      and k: "\<forall>k<length [?c, ?s, ?w]. constructed_from ([?c, ?s, ?w] ! k) (ss ! k)"
    by (elim exE conjE)
  from k [THEN spec, of 0] have "constructed_from ?c (ss ! 0)" by simp
  then have c0: "ss ! 0 = ConstantLearningRateSchedule (1/1000)"
    by (cases "ss ! 0") (simp_all add: constructed_from_def no_keys_def)
  from k [THEN spec, of 1] have "constructed_from ?s (ss ! 1)" by simp
  then have c1: "ss ! 1 = StepLearningRateSchedule (1/100) (- 100) (1/2)"
    by (cases "ss ! 1") (simp_all add: constructed_from_def no_keys_def)
  from k [THEN spec, of 2] have "constructed_from ?w (ss ! 2)" by simp
  then have c2: "ss ! 2 = WarmupLearningRateSchedule 0 1 0"
    by (cases "ss ! 2") (simp_all add: constructed_from_def no_keys_def)
  from n have n3: "length ss = 3" by simp
  from b n3 c0 c1 c2 show ?thesis by (intro exI [of _ ss] conjI)
qed

text \<open>The list of the specification's example and the values of its schedules.\<close>

lemma example_schedule_list:
  "get_learning_rate_schedules [''LearningRateSchedule'' \<mapsto>
     [no_keys\<lparr>Type := Some ''Constant'', Value := Some (1/1000)\<rparr>,
      no_keys\<lparr>Type := Some ''Step'', Initial := Some (1/100), Interval := Some 100,
        Factor := Some (1/2)\<rparr>]]
   = Inr [ConstantLearningRateSchedule (1/1000), StepLearningRateSchedule (1/100) 100 (1/2)]"
  by (simp add: get_learning_rate_schedules_def build_schedule_def getitem_def no_keys_def)

lemma example_schedule_values:
  "fst (get_learning_rate (ConstantLearningRateSchedule (1/1000)) e) = Inr (Some (1/1000))"
  "0 \<le> e \<Longrightarrow> e \<le> 99 \<Longrightarrow>
     fst (get_learning_rate (StepLearningRateSchedule (1/100) 100 (1/2)) e)
       = Inr (Some (1/100))"
  "100 \<le> e \<Longrightarrow> e \<le> 199 \<Longrightarrow>
     fst (get_learning_rate (StepLearningRateSchedule (1/100) 100 (1/2)) e)
       = Inr (Some (1/200))"
  "200 \<le> e \<Longrightarrow> e \<le> 299 \<Longrightarrow>
     fst (get_learning_rate (StepLearningRateSchedule (1/100) 100 (1/2)) e)
       = Inr (Some (1/400))"
  using step_at [of 100 0 e "1/100" "1/2"] step_at [of 100 1 e "1/100" "1/2"]
    step_at [of 100 2 e "1/100" "1/2"]
  by (simp_all add: power2_eq_square)

end
